theory Spec2Isabelle
  imports Complex_Main "HOL-Library.Sublist"
begin

section \<open>Numbers and time\<close>

text \<open>
  Go's \<^verbatim>\<open>float64\<close> is modelled by its four kinds of value: not-a-number, the two
  infinities, and a finite value held as a real. Results of arithmetic and of parsing go
  through \<open>rnd\<close>, which sends a magnitude at or above \<open>2^1024 - 2^970\<close> to the infinity
  of its sign and a magnitude at or below \<open>2^-1075\<close> to zero, as round-to-nearest-even
  does. The rounding of the 53-bit mantissa is not modelled (a finite result in range is
  kept exact), and the two zeros are identified. Comparisons follow IEEE 754: every
  comparison with \<open>NaN\<close> is false, except \<open>!=\<close>.

  A \<^verbatim>\<open>time.Time\<close> is an integer count of nanoseconds on the monotonic clock and a
  \<^verbatim>\<open>time.Duration\<close> is an integer count of nanoseconds. Go's \<^verbatim>\<open>int\<close> is an
  unbounded integer here: the code compares such values and never does arithmetic that
  could wrap.
\<close>

datatype f64 = NaN | PInf | NInf | Fin real

type_synonym time = int
type_synonym duration = int

definition f64_overflow :: real where
  "f64_overflow = 2 ^ 1024 - 2 ^ 970"

definition f64_underflow :: real where
  "f64_underflow = 1 / 2 ^ 1075"

definition rnd :: "real \<Rightarrow> f64" where
  "rnd r = (if f64_overflow \<le> r then PInf
            else if r \<le> - f64_overflow then NInf
            else if \<bar>r\<bar> \<le> f64_underflow then Fin 0
            else Fin r)"

fun f_le :: "f64 \<Rightarrow> f64 \<Rightarrow> bool" where
  "f_le NaN _ = False"
| "f_le _ NaN = False"
| "f_le NInf _ = True"
| "f_le _ PInf = True"
| "f_le PInf _ = False"
| "f_le _ NInf = False"
| "f_le (Fin a) (Fin b) = (a \<le> b)"

fun f_lt :: "f64 \<Rightarrow> f64 \<Rightarrow> bool" where
  "f_lt NaN _ = False"
| "f_lt _ NaN = False"
| "f_lt PInf _ = False"
| "f_lt _ NInf = False"
| "f_lt NInf _ = True"
| "f_lt _ PInf = True"
| "f_lt (Fin a) (Fin b) = (a < b)"

definition f_ge :: "f64 \<Rightarrow> f64 \<Rightarrow> bool" where
  "f_ge a b = f_le b a"

definition f_gt :: "f64 \<Rightarrow> f64 \<Rightarrow> bool" where
  "f_gt a b = f_lt b a"

text \<open>Go's \<^verbatim>\<open>==\<close> on floats: \<open>NaN\<close> equals nothing, itself included.\<close>

definition f_eq :: "f64 \<Rightarrow> f64 \<Rightarrow> bool" where
  "f_eq a b = (a \<noteq> NaN \<and> b \<noteq> NaN \<and> a = b)"

fun f_neg :: "f64 \<Rightarrow> f64" where
  "f_neg NaN = NaN"
| "f_neg PInf = NInf"
| "f_neg NInf = PInf"
| "f_neg (Fin a) = Fin (- a)"

text \<open>\<^verbatim>\<open>math.Abs\<close>.\<close>

fun f_abs :: "f64 \<Rightarrow> f64" where
  "f_abs NaN = NaN"
| "f_abs PInf = PInf"
| "f_abs NInf = PInf"
| "f_abs (Fin a) = Fin \<bar>a\<bar>"

fun f_add :: "f64 \<Rightarrow> f64 \<Rightarrow> f64" where
  "f_add NaN _ = NaN"
| "f_add _ NaN = NaN"
| "f_add PInf NInf = NaN"
| "f_add NInf PInf = NaN"
| "f_add PInf _ = PInf"
| "f_add _ PInf = PInf"
| "f_add NInf _ = NInf"
| "f_add _ NInf = NInf"
| "f_add (Fin a) (Fin b) = rnd (a + b)"

definition f_sub :: "f64 \<Rightarrow> f64 \<Rightarrow> f64" where
  "f_sub a b = f_add a (f_neg b)"

text \<open>The sign of a value that is not \<open>NaN\<close>; zero counts as positive.\<close>

fun f_negative :: "f64 \<Rightarrow> bool" where
  "f_negative NInf = True"
| "f_negative (Fin a) = (a < 0)"
| "f_negative _ = False"

definition f_inf :: "bool \<Rightarrow> f64" where
  "f_inf negative = (if negative then NInf else PInf)"

fun f_mul :: "f64 \<Rightarrow> f64 \<Rightarrow> f64" where
  "f_mul NaN _ = NaN"
| "f_mul _ NaN = NaN"
| "f_mul (Fin a) (Fin b) = rnd (a * b)"
| "f_mul a b =
     (if a = Fin 0 \<or> b = Fin 0 then NaN else f_inf (f_negative a \<noteq> f_negative b))"

fun f_div :: "f64 \<Rightarrow> f64 \<Rightarrow> f64" where
  "f_div NaN _ = NaN"
| "f_div _ NaN = NaN"
| "f_div (Fin a) (Fin b) =
     (if b = 0 then (if a = 0 then NaN else f_inf (a < 0)) else rnd (a / b))"
| "f_div (Fin a) _ = Fin 0"
| "f_div a (Fin b) = f_inf (f_negative a \<noteq> (b < 0))"
| "f_div _ _ = NaN"

section \<open>Data model (internal/store/models.go, internal/config/config.go)\<close>

record Trade =
  ID :: string
  MarketID :: string
  AssetID :: string
  MakerAddress :: string
  TakerAddress :: string
  Side :: string
  Outcome :: string
  Size :: string
  Price :: f64
  ValueUSD :: f64
  Timestamp :: time
  TradeID :: string
  TransactionHash :: string

definition SignalFreshInsider :: string where
  "SignalFreshInsider = ''FRESH_INSIDER''"

definition SignalWhale :: string where
  "SignalWhale = ''WHALE''"

definition SignalPanicBurst :: string where
  "SignalPanicBurst = ''PANIC_BURST''"

definition SignalPriceShock :: string where
  "SignalPriceShock = ''PRICE_SHOCK''"

text \<open>
  \<open>Meta\<close> is Go's \<^verbatim>\<open>map[string]interface{}\<close>; the only values the detector stores in
  it are floats. A nil map is the empty map.
\<close>

record Suspect =
  sTrade :: Trade
  SignalType :: string
  Nonce :: int
  Meta :: "string \<rightharpoonup> f64"

text \<open>The detection thresholds of \<^verbatim>\<open>config.Config\<close>, the fields the detector reads.\<close>

record Config =
  MinValueUSD :: f64
  WhaleValueUSD :: f64
  FreshWalletNonce :: int
  BurstCount :: int
  BurstWindow :: duration

section \<open>Burst tracker (package detector)\<close>

record BurstTracker =
  trades :: "string \<rightharpoonup> time list"
  window :: duration

definition NewBurstTracker :: "duration \<Rightarrow> BurstTracker" where
  "NewBurstTracker w = \<lparr>trades = Map.empty, window = w\<rparr>"

text \<open>\<^verbatim>\<open>t.After(u)\<close>.\<close>

definition After :: "time \<Rightarrow> time \<Rightarrow> bool" where
  "After t u = (u < t)"

text \<open>
  The loop of \<^verbatim>\<open>Record\<close> that looks for the first timestamp after the cutoff:
  \<open>i\<close> is the loop index and \<open>validIdx\<close> the variable of that name. The
  \<^verbatim>\<open>break\<close> returns at once.
\<close>

function validIdx_loop :: "time list \<Rightarrow> time \<Rightarrow> nat \<Rightarrow> nat \<Rightarrow> nat" where
  "validIdx_loop timestamps cutoff i validIdx =
     (if i < length timestamps then
        (let t = timestamps ! i in
         if After t cutoff then i
         else validIdx_loop timestamps cutoff (i + 1)
                (if int i = int (length timestamps) - 1 \<and> \<not> After t cutoff
                 then length timestamps else validIdx))
      else validIdx)"
  by pat_completeness auto
termination
  by (relation "measure (\<lambda>(timestamps, cutoff, i, validIdx). length timestamps - i)") auto

declare validIdx_loop.simps [simp del]

text \<open>
  \<^verbatim>\<open>Record\<close>: the current time, read by \<^verbatim>\<open>time.Now()\<close> in the source, is the
  argument \<open>now\<close>; the result is the returned count and the tracker after the call. A
  key missing from a Go map reads as the nil slice.
\<close>

definition Record :: "BurstTracker \<Rightarrow> string \<Rightarrow> time \<Rightarrow> int \<times> BurstTracker" where
  "Record b address now =
     (let cutoff = now + (- window b);
          timestamps = (case trades b address of None \<Rightarrow> [] | Some ts \<Rightarrow> ts);
          validIdx = validIdx_loop timestamps cutoff 0 0;
          timestamps = (if validIdx > 0 then drop validIdx timestamps else timestamps);
          timestamps = timestamps @ [now]
      in (int (length timestamps), b\<lparr>trades := (trades b)(address \<mapsto> timestamps)\<rparr>))"

text \<open>
  \<^verbatim>\<open>Cleanup\<close>: deleting from a Go map while ranging over it is allowed, every entry
  present at the start is visited once, and the test on one entry does not depend on the
  others, so the result is the map without the entries that pass the test.
\<close>

definition Cleanup :: "BurstTracker \<Rightarrow> time \<Rightarrow> BurstTracker" where
  "Cleanup b now =
     (let cutoff = now + (- window b)
      in b\<lparr>trades := (\<lambda>addr.
            case trades b addr of
              None \<Rightarrow> None
            | Some timestamps \<Rightarrow>
                if length timestamps = 0 \<or> \<not> After (timestamps ! (length timestamps - 1)) cutoff
                then None else Some timestamps)\<rparr>)"

text \<open>
  The tracker's map is private to the package, so its states are those that calls of
  \<^verbatim>\<open>Record\<close> and \<^verbatim>\<open>Cleanup\<close> produce from \<^verbatim>\<open>NewBurstTracker\<close>. A history is
  the list of calls made so far, each with the time it read; the calls hold the tracker's
  lock, so they happen one after the other.
\<close>

datatype tracker_call = CallRecord string | CallCleanup

fun tracker_step :: "BurstTracker \<Rightarrow> time \<times> tracker_call \<Rightarrow> BurstTracker" where
  "tracker_step b (now, CallRecord address) = snd (Record b address now)"
| "tracker_step b (now, CallCleanup) = Cleanup b now"

definition tracker_after :: "duration \<Rightarrow> (time \<times> tracker_call) list \<Rightarrow> BurstTracker" where
  "tracker_after w calls = foldl tracker_step (NewBurstTracker w) calls"

section \<open>Signal detector (internal/detector/signals.go)\<close>

record Detector =
  cfg :: Config
  burstTracker :: BurstTracker
  lastPrices :: "string \<rightharpoonup> f64"

definition NewDetector :: "Config \<Rightarrow> Detector" where
  "NewDetector c =
     \<lparr>cfg = c, burstTracker = NewBurstTracker (BurstWindow c), lastPrices = Map.empty\<rparr>"

text \<open>
  \<^verbatim>\<open>Detect\<close> takes the detector's state and returns the suspects with the state after
  the call; \<open>now\<close> is the time that the burst tracker reads. Each \<open>suspects\<close> below is
  the source's variable after the check above it.
\<close>

definition Detect :: "Detector \<Rightarrow> Trade \<Rightarrow> int \<Rightarrow> time \<Rightarrow> Suspect list \<times> Detector" where
  "Detect d trade nonce now =
     (let suspects = [];
          lastPrice = lastPrices d (AssetID trade);
          d = d\<lparr>lastPrices := (lastPrices d)(AssetID trade \<mapsto> Price trade)\<rparr>;
          suspects =
            (case lastPrice of
               None \<Rightarrow> suspects
             | Some lastPrice \<Rightarrow>
                 if f_gt lastPrice (Fin 0) then
                   (let delta = f_abs (f_sub (Price trade) lastPrice);
                        pctChange = f_div delta lastPrice
                    in if f_ge pctChange (Fin (5 / 100)) then
                         suspects @
                           [\<lparr>sTrade = trade, SignalType = SignalPriceShock, Nonce = nonce,
                             Meta = [''prev_price'' \<mapsto> lastPrice,
                                     ''new_price'' \<mapsto> Price trade,
                                     ''pct_change'' \<mapsto> pctChange]\<rparr>]
                       else suspects)
                 else suspects);
          suspects =
            (if f_ge (ValueUSD trade) (WhaleValueUSD (cfg d)) then
               suspects @
                 [\<lparr>sTrade = trade, SignalType = SignalWhale, Nonce = nonce, Meta = Map.empty\<rparr>]
             else suspects);
          suspects =
            (if nonce \<ge> 0 \<and> f_ge (ValueUSD trade) (MinValueUSD (cfg d)) then
               (if nonce \<le> FreshWalletNonce (cfg d) then
                  suspects @
                    [\<lparr>sTrade = trade, SignalType = SignalFreshInsider, Nonce = nonce,
                      Meta = Map.empty\<rparr>]
                else suspects)
             else suspects)
      in if MakerAddress trade \<noteq> [] then
           (let (count, b) = Record (burstTracker d) (MakerAddress trade) now;
                d = d\<lparr>burstTracker := b\<rparr>
            in if count \<ge> BurstCount (cfg d) then
                 (suspects @
                    [\<lparr>sTrade = trade, SignalType = SignalPanicBurst, Nonce = nonce,
                      Meta = Map.empty\<rparr>], d)
               else (suspects, d))
         else (suspects, d))"

definition ShouldEnrich :: "Detector \<Rightarrow> Trade \<Rightarrow> bool" where
  "ShouldEnrich d trade = (f_ge (ValueUSD trade) (MinValueUSD (cfg d)) \<and> MakerAddress trade \<noteq> [])"



section \<open>The standard library's number parsers\<close>

text \<open>
  \<^verbatim>\<open>strconv.ParseFloat(s, 64)\<close>, for the decimal syntax: an optional sign, digits with
  at most one point and at least one digit, an optional exponent (\<open>e\<close> or \<open>E\<close>, an
  optional sign, at least one digit), and the names \<open>inf\<close>, \<open>infinity\<close> (with an
  optional sign) and \<open>nan\<close> in any case. The whole string must be consumed. The result is
  the value and the error: on a syntax error the value is 0; a number too large is the
  infinity of its sign with a range error. Hexadecimal mantissas and digit-separating
  underscores, which the library also accepts, are outside this model, which reports a
  syntax error for them.
\<close>

datatype num_error = ErrSyntax | ErrRange

definition is_digit :: "char \<Rightarrow> bool" where
  "is_digit c = (48 \<le> (of_char c :: nat) \<and> (of_char c :: nat) \<le> 57)"

definition digit_val :: "char \<Rightarrow> nat" where
  "digit_val c = of_char c - 48"

definition digits_val :: "string \<Rightarrow> nat" where
  "digits_val ds = foldl (\<lambda>n c. n * 10 + digit_val c) 0 ds"

definition to_lower :: "char \<Rightarrow> char" where
  "to_lower c =
     (case map_of (zip ''ABCDEFGHIJKLMNOPQRSTUVWXYZ'' ''abcdefghijklmnopqrstuvwxyz'') c of
        Some l \<Rightarrow> l
      | None \<Rightarrow> c)"

definition is_sign :: "char \<Rightarrow> bool" where
  "is_sign c = (c = CHR ''+'' \<or> c = CHR ''-'')"

definition pow10 :: "int \<Rightarrow> real" where
  "pow10 k = (if 0 \<le> k then 10 ^ nat k else 1 / 10 ^ nat (- k))"

text \<open>\<^verbatim>\<open>special\<close>: the names of the infinities and of not-a-number.\<close>

definition special :: "string \<Rightarrow> f64 option" where
  "special s =
     (let signed = (s \<noteq> [] \<and> is_sign (hd s));
          name = map to_lower (if signed then tl s else s)
      in if name = ''inf'' \<or> name = ''infinity''
         then Some (f_inf (signed \<and> hd s = CHR ''-''))
         else if \<not> signed \<and> name = ''nan'' then Some NaN
         else None)"

text \<open>
  \<^verbatim>\<open>readFloat\<close> on decimal syntax: the sign, the digits before and after the point,
  the exponent (which stops growing at 10000, as in the library) and the rest of the
  string; \<open>None\<close> when the syntax is wrong.
\<close>

definition readFloat :: "string \<Rightarrow> (bool \<times> string \<times> string \<times> int \<times> string) option" where
  "readFloat s =
     (let neg = (s \<noteq> [] \<and> hd s = CHR ''-'');
          s1 = (if s \<noteq> [] \<and> is_sign (hd s) then tl s else s);
          ipart = takeWhile is_digit s1;
          s2 = dropWhile is_digit s1;
          sawdot = (s2 \<noteq> [] \<and> hd s2 = CHR ''.'');
          fpart = (if sawdot then takeWhile is_digit (tl s2) else []);
          s3 = (if sawdot then dropWhile is_digit (tl s2) else s2)
      in if ipart = [] \<and> fpart = [] then None
         else if s3 \<noteq> [] \<and> (hd s3 = CHR ''e'' \<or> hd s3 = CHR ''E'') then
           (let s4 = tl s3;
                esign = (if s4 \<noteq> [] \<and> hd s4 = CHR ''-'' then - 1 else 1 :: int);
                s5 = (if s4 \<noteq> [] \<and> is_sign (hd s4) then tl s4 else s4);
                edigits = takeWhile is_digit s5;
                e = foldl (\<lambda>e c. if e < 10000 then e * 10 + digit_val c else e) 0 edigits
            in if edigits = [] then None
               else Some (neg, ipart, fpart, esign * int e, dropWhile is_digit s5))
         else Some (neg, ipart, fpart, 0, s3))"

definition ParseFloat :: "string \<Rightarrow> f64 \<times> num_error option" where
  "ParseFloat s =
     (case special s of
        Some f \<Rightarrow> (f, None)
      | None \<Rightarrow>
          (case readFloat s of
             None \<Rightarrow> (Fin 0, Some ErrSyntax)
           | Some (neg, ipart, fpart, e, rest) \<Rightarrow>
               if rest \<noteq> [] then (Fin 0, Some ErrSyntax)
               else
                 (let m = real (digits_val (ipart @ fpart)) * pow10 (e - int (length fpart));
                      f = rnd (if neg then - m else m)
                  in (f, if f = PInf \<or> f = NInf then Some ErrRange else None))))"

text \<open>
  \<^verbatim>\<open>strconv.ParseInt(s, 10, 64)\<close>: an optional sign and decimal digits; a value outside
  the 64-bit range is an error.
\<close>

definition ParseInt :: "string \<Rightarrow> int option" where
  "ParseInt s =
     (let neg = (s \<noteq> [] \<and> hd s = CHR ''-'');
          ds = (if s \<noteq> [] \<and> is_sign (hd s) then tl s else s);
          n = (if neg then - int (digits_val ds) else int (digits_val ds))
      in if ds = [] \<or> \<not> list_all is_digit ds then None
         else if n < - (2 ^ 63) \<or> 2 ^ 63 \<le> n then None
         else Some n)"







section \<open>JSON payloads and \<^verbatim>\<open>json.Unmarshal\<close>\<close>

text \<open>
  A payload that is syntactically JSON is a value of \<open>json\<close>: an object keeps its
  members in order, repeated keys included, and a number keeps its text. A payload that
  is not JSON is \<open>None\<close>: \<^verbatim>\<open>json.Unmarshal\<close> checks the syntax of the whole input
  before it stores anything, and fails with a syntax error whatever the target.

  Decoding into a struct follows the library: the value must be an object or
  \<open>null\<close> (which stores nothing); a member is stored in the field whose name equals the
  key up to the case of ASCII letters, other members are skipped; members are stored in
  order, so the last one for a field wins; a string field takes a string, \<open>null\<close>
  leaves it as it is, and any other value is a type error; a slice field takes an array
  whose elements decode, or \<open>null\<close>; a \<^verbatim>\<open>json.RawMessage\<close> field takes any value,
  \<open>null\<close> included. After a type error the library goes on and returns the error at
  the end; every caller below discards the target when the error is not nil, so a
  decoder here returns \<open>None\<close> for a type error. Not modelled: the two non-ASCII letters
  that the library's case folding identifies with \<open>k\<close> and \<open>s\<close>, and the way a repeated
  array member is decoded over the elements of the earlier one.
\<close>

datatype json =
    JNull
  | JBool bool
  | JNumber string
  | JString string
  | JArray "json list"
  | JObject "(string \<times> json) list"

datatype decode_error = SyntaxError | UnmarshalTypeError

definition fold_key :: "string \<Rightarrow> string" where
  "fold_key s = map to_lower s"

definition key_matches :: "string \<Rightarrow> string \<Rightarrow> bool" where
  "key_matches name key = (fold_key key = fold_key name)"

definition field_values :: "(string \<times> json) list \<Rightarrow> string \<Rightarrow> json list" where
  "field_values entries name =
     map snd (filter (\<lambda>entry. key_matches name (fst entry)) entries)"

fun object_entries :: "json \<Rightarrow> (string \<times> json) list option" where
  "object_entries (JObject entries) = Some entries"
| "object_entries JNull = Some []"
| "object_entries _ = None"

fun string_ok :: "json \<Rightarrow> bool" where
  "string_ok (JString s) = True"
| "string_ok JNull = True"
| "string_ok _ = False"

fun store_string :: "string \<Rightarrow> json \<Rightarrow> string" where
  "store_string old (JString s) = s"
| "store_string old _ = old"

definition string_field :: "(string \<times> json) list \<Rightarrow> string \<Rightarrow> string option" where
  "string_field entries name =
     (let values = field_values entries name
      in if list_all string_ok values then Some (foldl store_string [] values) else None)"

fun all_some :: "'a option list \<Rightarrow> 'a list option" where
  "all_some [] = Some []"
| "all_some (None # xs) = None"
| "all_some (Some x # xs) = map_option ((#) x) (all_some xs)"

fun decode_slice :: "(json \<Rightarrow> 'a option) \<Rightarrow> json \<Rightarrow> 'a list option" where
  "decode_slice elem (JArray xs) = all_some (map elem xs)"
| "decode_slice elem JNull = Some []"
| "decode_slice elem _ = None"

definition slice_field ::
  "(json \<Rightarrow> 'a option) \<Rightarrow> (string \<times> json) list \<Rightarrow> string \<Rightarrow> 'a list option" where
  "slice_field elem entries name =
     map_option (\<lambda>slices. if slices = [] then [] else last slices)
       (all_some (map (decode_slice elem) (field_values entries name)))"

definition raw_field :: "(string \<times> json) list \<Rightarrow> string \<Rightarrow> json option" where
  "raw_field entries name =
     (let values = field_values entries name
      in if values = [] then None else Some (last values))"

text \<open>
  \<^verbatim>\<open>json.Unmarshal(data, &target)\<close> for a target whose decoder is \<open>decode\<close>.
\<close>

definition Unmarshal :: "(json \<Rightarrow> 'a option) \<Rightarrow> json option \<Rightarrow> decode_error + 'a" where
  "Unmarshal decode data =
     (case data of
        None \<Rightarrow> Inl SyntaxError
      | Some v \<Rightarrow> (case decode v of None \<Rightarrow> Inl UnmarshalTypeError | Some x \<Rightarrow> Inr x))"

section \<open>Wire formats (internal/ingest/parser.go, internal/ingest/trades\_api.go)\<close>

record WSMessage =
  ws_Type :: string
  ws_Channel :: string
  ws_Data :: "json option"

text \<open>A price level of \<open>bids\<close> or \<open>asks\<close> is the pair of its price and size.\<close>

record BookEvent =
  be_Market :: string
  be_AssetID :: string
  be_Timestamp :: string
  be_Hash :: string
  be_EventType :: string
  be_LastTradePrice :: string
  be_Bids :: "(string \<times> string) list"
  be_Asks :: "(string \<times> string) list"

record TradeData =
  td_ID :: string
  td_TradeID :: string
  td_Market :: string
  td_AssetID :: string
  td_Maker :: string
  td_Taker :: string
  td_MakerAddress :: string
  td_TakerAddress :: string
  td_Side :: string
  td_Size :: string
  td_Price :: string
  td_Outcome :: string
  td_Timestamp :: string
  td_TransactionHash :: string
  td_MatchTime :: string
  td_Status :: string

record TradeEvent =
  te_Trades :: "TradeData list"
  te_TradeData :: TradeData

record LastTradePriceEvent =
  ltp_Type :: string
  ltp_AssetID :: string
  ltp_Price :: string
  ltp_Size :: string
  ltp_Side :: string
  ltp_Maker :: string
  ltp_Taker :: string


definition decode_WSMessage :: "json \<Rightarrow> WSMessage option" where
  "decode_WSMessage v =
     Option.bind (object_entries v) (\<lambda>es.
     Option.bind (string_field es ''type'') (\<lambda>ty.
     Option.bind (string_field es ''channel'') (\<lambda>channel.
     Some \<lparr>ws_Type = ty, ws_Channel = channel, ws_Data = raw_field es ''data''\<rparr>)))"

definition decode_level :: "json \<Rightarrow> (string \<times> string) option" where
  "decode_level v =
     Option.bind (object_entries v) (\<lambda>es.
     Option.bind (string_field es ''price'') (\<lambda>price.
     Option.bind (string_field es ''size'') (\<lambda>size.
     Some (price, size))))"

definition decode_BookEvent :: "json \<Rightarrow> BookEvent option" where
  "decode_BookEvent v =
     Option.bind (object_entries v) (\<lambda>es.
     Option.bind (string_field es ''market'') (\<lambda>market.
     Option.bind (string_field es ''asset_id'') (\<lambda>asset_id.
     Option.bind (string_field es ''timestamp'') (\<lambda>timestamp.
     Option.bind (string_field es ''hash'') (\<lambda>hash.
     Option.bind (string_field es ''event_type'') (\<lambda>event_type.
     Option.bind (string_field es ''last_trade_price'') (\<lambda>last_trade_price.
     Option.bind (slice_field decode_level es ''bids'') (\<lambda>bids.
     Option.bind (slice_field decode_level es ''asks'') (\<lambda>asks.
     Some \<lparr>be_Market = market, be_AssetID = asset_id, be_Timestamp = timestamp,
           be_Hash = hash, be_EventType = event_type, be_LastTradePrice = last_trade_price,
           be_Bids = bids, be_Asks = asks\<rparr>)))))))))"

definition TradeData_of_entries :: "(string \<times> json) list \<Rightarrow> TradeData option" where
  "TradeData_of_entries es =
     Option.bind (string_field es ''id'') (\<lambda>id.
     Option.bind (string_field es ''trade_id'') (\<lambda>trade_id.
     Option.bind (string_field es ''market'') (\<lambda>market.
     Option.bind (string_field es ''asset_id'') (\<lambda>asset_id.
     Option.bind (string_field es ''maker'') (\<lambda>maker.
     Option.bind (string_field es ''taker'') (\<lambda>taker.
     Option.bind (string_field es ''maker_address'') (\<lambda>maker_address.
     Option.bind (string_field es ''taker_address'') (\<lambda>taker_address.
     Option.bind (string_field es ''side'') (\<lambda>side.
     Option.bind (string_field es ''size'') (\<lambda>size.
     Option.bind (string_field es ''price'') (\<lambda>price.
     Option.bind (string_field es ''outcome'') (\<lambda>outcome.
     Option.bind (string_field es ''timestamp'') (\<lambda>timestamp.
     Option.bind (string_field es ''transaction_hash'') (\<lambda>transaction_hash.
     Option.bind (string_field es ''match_time'') (\<lambda>match_time.
     Option.bind (string_field es ''status'') (\<lambda>status.
     Some \<lparr>td_ID = id, td_TradeID = trade_id, td_Market = market, td_AssetID = asset_id,
           td_Maker = maker, td_Taker = taker, td_MakerAddress = maker_address,
           td_TakerAddress = taker_address, td_Side = side, td_Size = size,
           td_Price = price, td_Outcome = outcome, td_Timestamp = timestamp,
           td_TransactionHash = transaction_hash, td_MatchTime = match_time,
           td_Status = status\<rparr>))))))))))))))))"

definition decode_TradeData :: "json \<Rightarrow> TradeData option" where
  "decode_TradeData v = Option.bind (object_entries v) TradeData_of_entries"

text \<open>
  \<^verbatim>\<open>TradeEvent\<close> embeds \<^verbatim>\<open>TradeData\<close>: the fields of the embedded struct are
  read from the members of the same object.
\<close>

definition decode_TradeEvent :: "json \<Rightarrow> TradeEvent option" where
  "decode_TradeEvent v =
     Option.bind (object_entries v) (\<lambda>es.
     Option.bind (slice_field decode_TradeData es ''trades'') (\<lambda>trades.
     Option.bind (TradeData_of_entries es) (\<lambda>td.
     Some \<lparr>te_Trades = trades, te_TradeData = td\<rparr>)))"

definition decode_LastTradePriceEvent :: "json \<Rightarrow> LastTradePriceEvent option" where
  "decode_LastTradePriceEvent v =
     Option.bind (object_entries v) (\<lambda>es.
     Option.bind (string_field es ''type'') (\<lambda>ty.
     Option.bind (string_field es ''asset_id'') (\<lambda>asset_id.
     Option.bind (string_field es ''price'') (\<lambda>price.
     Option.bind (string_field es ''size'') (\<lambda>size.
     Option.bind (string_field es ''side'') (\<lambda>side.
     Option.bind (string_field es ''maker'') (\<lambda>maker.
     Option.bind (string_field es ''taker'') (\<lambda>taker.
     Some \<lparr>ltp_Type = ty, ltp_AssetID = asset_id, ltp_Price = price, ltp_Size = size,
           ltp_Side = side, ltp_Maker = maker, ltp_Taker = taker\<rparr>))))))))"

section \<open>Event parser (internal/ingest/parser.go)\<close>

text \<open>
  What the parser reads from outside: \<^verbatim>\<open>time.Parse\<close>, as a function from the layout
  and the text to the time or to \<open>None\<close> for an error, and the clock. Every reading of
  \<^verbatim>\<open>time.Now()\<close> during one call is the same instant \<open>Now\<close>.
\<close>

record env =
  time_Parse :: "string \<Rightarrow> string \<Rightarrow> time option"
  Now :: time

datatype parse_error =
    UnmarshalMessageFailed decode_error
  | ParseLastTradePriceFailed decode_error

text \<open>The decimal text of an integer, as \<^verbatim>\<open>%d\<close> prints it.\<close>

fun decimal_nat :: "nat \<Rightarrow> string" where
  "decimal_nat n =
     (if n < 10 then [''0123456789'' ! n]
      else decimal_nat (n div 10) @ [''0123456789'' ! (n mod 10)])"

declare decimal_nat.simps [simp del]

definition decimal :: "int \<Rightarrow> string" where
  "decimal n = (if n < 0 then ''-'' @ decimal_nat (nat (- n)) else decimal_nat (nat n))"

fun coalesce :: "string list \<Rightarrow> string" where
  "coalesce [] = []"
| "coalesce (v # values) = (if v \<noteq> [] then v else coalesce values)"

definition generateID :: "TradeData \<Rightarrow> string" where
  "generateID td =
     (if td_ID td \<noteq> [] then td_ID td
      else if td_TradeID td \<noteq> [] then td_TradeID td
      else td_Market td @ ''-'' @ td_Maker td @ ''-'' @ td_Timestamp td)"

definition parseFloat :: "string \<Rightarrow> f64" where
  "parseFloat s = (if s = [] then Fin 0 else fst (ParseFloat s))"

definition timestamp_formats :: "string list" where
  "timestamp_formats =
     [''2006-01-02T15:04:05Z07:00'',
      ''2006-01-02T15:04:05.999999999Z07:00'',
      ''2006-01-02T15:04:05Z'',
      ''2006-01-02T15:04:05.000Z'',
      ''2006-01-02 15:04:05'']"

fun try_formats :: "env \<Rightarrow> string list \<Rightarrow> string \<Rightarrow> time option" where
  "try_formats e [] v = None"
| "try_formats e (format # formats) v =
     (case time_Parse e format v of Some t \<Rightarrow> Some t | None \<Rightarrow> try_formats e formats v)"

fun parseTimestamp :: "env \<Rightarrow> string list \<Rightarrow> time" where
  "parseTimestamp e [] = Now e"
| "parseTimestamp e (v # values) =
     (if v = [] then parseTimestamp e values
      else
        (case ParseInt v of
           Some ts \<Rightarrow> if ts > 1000000000000 then ts * 1000000 else ts * 1000000000
         | None \<Rightarrow>
             (case try_formats e timestamp_formats v of
                Some t \<Rightarrow> t
              | None \<Rightarrow> parseTimestamp e values)))"

definition calculateValueUSD :: "string \<Rightarrow> f64 \<Rightarrow> f64" where
  "calculateValueUSD sizeStr price =
     (let size = parseFloat sizeStr
      in if f_eq size (Fin 0) then Fin 0
         else
           (let size = (if f_gt size (Fin 1000000) then f_div size (Fin 1000000) else size)
            in size))"

text \<open>
  \<^verbatim>\<open>parseBookEvents\<close>: the loop over the events, \<^verbatim>\<open>continue\<close> going on with the
  rest. Fields that the source does not set hold their zero value.
\<close>

fun parseBookEvents :: "env \<Rightarrow> BookEvent list \<Rightarrow> Trade list" where
  "parseBookEvents e [] = []"
| "parseBookEvents e (event # events) =
     (if be_LastTradePrice event = [] \<or> be_LastTradePrice event = ''0''
      then parseBookEvents e events
      else
        (let price = parseFloat (be_LastTradePrice event)
         in if f_eq price (Fin 0) then parseBookEvents e events
            else
              (let trade =
                     \<lparr>ID = ''book-'' @ take (min 8 (length (be_AssetID event))) (be_AssetID event)
                            @ ''-'' @ be_Timestamp event,
                      MarketID = be_Market event,
                      AssetID = be_AssetID event,
                      MakerAddress = [], TakerAddress = [], Side = [], Outcome = [], Size = [],
                      Price = price,
                      ValueUSD = Fin 0,
                      Timestamp = parseTimestamp e [be_Timestamp event],
                      TradeID = [], TransactionHash = []\<rparr>;
                   trade = trade\<lparr>ValueUSD := Fin 0\<rparr>;
                   trade = trade\<lparr>Size := ''book_update''\<rparr>
               in trade # parseBookEvents e events)))"

definition parseLastTradePrice :: "env \<Rightarrow> json option \<Rightarrow> Trade list \<times> parse_error option" where
  "parseLastTradePrice e data =
     (case Unmarshal decode_LastTradePriceEvent data of
        Inl err \<Rightarrow> ([], Some (ParseLastTradePriceFailed err))
      | Inr event \<Rightarrow>
          if ltp_AssetID event = [] then ([], None)
          else
            (let trade =
                   \<lparr>ID = ''ltp-'' @ take (min 8 (length (ltp_AssetID event))) (ltp_AssetID event)
                          @ ''-'' @ decimal (Now e),
                    MarketID = [],
                    AssetID = ltp_AssetID event,
                    MakerAddress = ltp_Maker event,
                    TakerAddress = ltp_Taker event,
                    Side = ltp_Side event,
                    Outcome = [],
                    Size = ltp_Size event,
                    Price = parseFloat (ltp_Price event),
                    ValueUSD = Fin 0,
                    Timestamp = Now e,
                    TradeID = [], TransactionHash = []\<rparr>;
                 trade = trade\<lparr>ValueUSD := calculateValueUSD (Size trade) (Price trade)\<rparr>
             in ([trade], None)))"

definition convertTrades :: "env \<Rightarrow> TradeData list \<Rightarrow> Trade list" where
  "convertTrades e data =
     map (\<lambda>td.
       let trade =
             \<lparr>ID = generateID td,
              MarketID = td_Market td,
              AssetID = td_AssetID td,
              MakerAddress = coalesce [td_MakerAddress td, td_Maker td],
              TakerAddress = coalesce [td_TakerAddress td, td_Taker td],
              Side = td_Side td,
              Outcome = td_Outcome td,
              Size = td_Size td,
              Price = parseFloat (td_Price td),
              ValueUSD = Fin 0,
              Timestamp = parseTimestamp e [td_Timestamp td, td_MatchTime td],
              TradeID = coalesce [td_TradeID td, td_ID td],
              TransactionHash = td_TransactionHash td\<rparr>;
           trade = trade\<lparr>ValueUSD := calculateValueUSD (Size trade) (Price trade)\<rparr>
       in trade) data"

text \<open>
  \<^verbatim>\<open>parseTrades\<close>, in three parts: the function from its start, from the attempt to
  read a \<^verbatim>\<open>TradeEvent\<close>, and from the attempt to read a single \<^verbatim>\<open>TradeData\<close>. The
  payload \<open>None\<close> is the empty \<^verbatim>\<open>json.RawMessage\<close>.
\<close>

definition parseTrades_single :: "env \<Rightarrow> json option \<Rightarrow> Trade list \<times> parse_error option" where
  "parseTrades_single e data =
     (case Unmarshal decode_TradeData data of
        Inr single \<Rightarrow>
          if td_ID single \<noteq> [] \<or> td_TradeID single \<noteq> [] \<or> td_Market single \<noteq> []
          then (convertTrades e [single], None)
          else ([], None)
      | Inl err \<Rightarrow> ([], None))"

definition parseTrades_event :: "env \<Rightarrow> json option \<Rightarrow> Trade list \<times> parse_error option" where
  "parseTrades_event e data =
     (case Unmarshal decode_TradeEvent data of
        Inr event \<Rightarrow>
          if length (te_Trades event) > 0 then (convertTrades e (te_Trades event), None)
          else if td_ID (te_TradeData event) \<noteq> [] \<or> td_TradeID (te_TradeData event) \<noteq> []
          then (convertTrades e [te_TradeData event], None)
          else parseTrades_single e data
      | Inl err \<Rightarrow> parseTrades_single e data)"

definition parseTrades :: "env \<Rightarrow> json option \<Rightarrow> Trade list \<times> parse_error option" where
  "parseTrades e data =
     (if data = None then ([], None)
      else
        (case Unmarshal (decode_slice decode_TradeData) data of
           Inr tradesArray \<Rightarrow>
             if length tradesArray > 0 then (convertTrades e tradesArray, None)
             else parseTrades_event e data
         | Inl err \<Rightarrow> parseTrades_event e data))"

text \<open>
  \<^verbatim>\<open>ParseMessage\<close>, in three parts: the function from its start, from the attempt to
  read a single \<^verbatim>\<open>BookEvent\<close>, and from the attempt to read a \<^verbatim>\<open>WSMessage\<close>. The
  result is the triple that the source returns; a nil slice is the empty list.
\<close>

definition ParseMessage_envelope ::
  "env \<Rightarrow> json option \<Rightarrow> Trade list \<times> string \<times> parse_error option" where
  "ParseMessage_envelope e data =
     (case Unmarshal decode_WSMessage data of
        Inl err \<Rightarrow> ([], [], Some (UnmarshalMessageFailed err))
      | Inr msg \<Rightarrow>
          if ws_Type msg = ''last_trade_price'' then
            (case parseLastTradePrice e data of
               (parsed, Some err) \<Rightarrow> ([], ws_Type msg, Some err)
             | (parsed, None) \<Rightarrow> (parsed, ws_Type msg, None))
          else if ws_Type msg = ''trade'' then
            (case parseTrades e (ws_Data msg) of
               (parsed, Some err) \<Rightarrow> ([], ws_Type msg, Some err)
             | (parsed, None) \<Rightarrow> (parsed, ws_Type msg, None))
          else ([], ws_Type msg, None))"

definition ParseMessage_single ::
  "env \<Rightarrow> json option \<Rightarrow> Trade list \<times> string \<times> parse_error option" where
  "ParseMessage_single e data =
     (case Unmarshal decode_BookEvent data of
        Inr singleBook \<Rightarrow>
          if be_EventType singleBook \<noteq> []
          then (parseBookEvents e [singleBook], be_EventType singleBook, None)
          else ParseMessage_envelope e data
      | Inl err \<Rightarrow> ParseMessage_envelope e data)"

definition ParseMessage ::
  "env \<Rightarrow> json option \<Rightarrow> Trade list \<times> string \<times> parse_error option" where
  "ParseMessage e data =
     (case Unmarshal (decode_slice decode_BookEvent) data of
        Inr bookEvents \<Rightarrow>
          if length bookEvents > 0
             \<and> (be_EventType (bookEvents ! 0) = ''book''
                 \<or> be_EventType (bookEvents ! 0) = ''price_change'')
          then (parseBookEvents e bookEvents, ''book_array'', None)
          else ParseMessage_single e data
      | Inl err \<Rightarrow> ParseMessage_single e data)"

section \<open>Trades poller (internal/ingest/trades\_api.go)\<close>




section \<open>Auxiliary definitions for the proofs\<close>

text \<open>
  The order in which the tracker stores its timestamps: each stored sequence is in
  non-decreasing order and holds nothing later than the clock.
\<close>

definition tracker_ordered :: "BurstTracker \<Rightarrow> time \<Rightarrow> bool" where
  "tracker_ordered b clock =
     (\<forall>address ts. trades b address = Some ts \<longrightarrow> sorted ts \<and> (\<forall>t\<in>set ts. t \<le> clock))"

text \<open>
  The four checks of \<^verbatim>\<open>Detect\<close>, each as the list of suspects it appends, read on the
  state before the call.
\<close>

definition shock_part :: "Detector \<Rightarrow> Trade \<Rightarrow> int \<Rightarrow> Suspect list" where
  "shock_part d trade nonce =
     (case lastPrices d (AssetID trade) of
        None \<Rightarrow> []
      | Some lastPrice \<Rightarrow>
          if f_gt lastPrice (Fin 0)
             \<and> f_ge (f_div (f_abs (f_sub (Price trade) lastPrice)) lastPrice) (Fin (5 / 100))
          then [\<lparr>sTrade = trade, SignalType = SignalPriceShock, Nonce = nonce,
                 Meta = [''prev_price'' \<mapsto> lastPrice,
                         ''new_price'' \<mapsto> Price trade,
                         ''pct_change'' \<mapsto> f_div (f_abs (f_sub (Price trade) lastPrice)) lastPrice]\<rparr>]
          else [])"

definition whale_part :: "Detector \<Rightarrow> Trade \<Rightarrow> int \<Rightarrow> Suspect list" where
  "whale_part d trade nonce =
     (if f_ge (ValueUSD trade) (WhaleValueUSD (cfg d))
      then [\<lparr>sTrade = trade, SignalType = SignalWhale, Nonce = nonce, Meta = Map.empty\<rparr>]
      else [])"

definition fresh_part :: "Detector \<Rightarrow> Trade \<Rightarrow> int \<Rightarrow> Suspect list" where
  "fresh_part d trade nonce =
     (if nonce \<ge> 0 \<and> f_ge (ValueUSD trade) (MinValueUSD (cfg d)) \<and> nonce \<le> FreshWalletNonce (cfg d)
      then [\<lparr>sTrade = trade, SignalType = SignalFreshInsider, Nonce = nonce, Meta = Map.empty\<rparr>]
      else [])"

definition burst_part :: "Detector \<Rightarrow> Trade \<Rightarrow> int \<Rightarrow> time \<Rightarrow> Suspect list" where
  "burst_part d trade nonce now =
     (if MakerAddress trade \<noteq> []
         \<and> fst (Record (burstTracker d) (MakerAddress trade) now) \<ge> BurstCount (cfg d)
      then [\<lparr>sTrade = trade, SignalType = SignalPanicBurst, Nonce = nonce, Meta = Map.empty\<rparr>]
      else [])"

text \<open>
  The zero value of \<^verbatim>\<open>store.Trade\<close> and the configuration and trades of
  \<^verbatim>\<open>TestDetector\<close> (internal/detector/detector\_test.go).
\<close>

definition zeroTrade :: Trade where
  "zeroTrade = \<lparr>ID = [], MarketID = [], AssetID = [], MakerAddress = [], TakerAddress = [],
     Side = [], Outcome = [], Size = [], Price = Fin 0, ValueUSD = Fin 0, Timestamp = 0,
     TradeID = [], TransactionHash = []\<rparr>"

definition test_cfg :: Config where
  "test_cfg = \<lparr>MinValueUSD = Fin 2000, WhaleValueUSD = Fin 50000, FreshWalletNonce = 5,
     BurstCount = 3, BurstWindow = 60 * 1000000000\<rparr>"

definition whaleTrade :: Trade where
  "whaleTrade = zeroTrade\<lparr>ID := ''whale-1'', ValueUSD := Fin 55000, MakerAddress := ''0xWhale''\<rparr>"

definition freshTrade :: Trade where
  "freshTrade = zeroTrade\<lparr>ID := ''fresh-1'', ValueUSD := Fin 5000, MakerAddress := ''0xFresh''\<rparr>"

text \<open>
  The tests that \<^verbatim>\<open>ParseMessage\<close> makes on a payload before it reads it as an
  envelope: an array of book events whose first event is of type \<open>book\<close> or
  \<open>price_change\<close>, and a single book event with an event type.
\<close>

definition book_array_shape :: "json option \<Rightarrow> bool" where
  "book_array_shape data =
     (case Unmarshal (decode_slice decode_BookEvent) data of
        Inr bookEvents \<Rightarrow>
          length bookEvents > 0
          \<and> (be_EventType (bookEvents ! 0) = ''book''
              \<or> be_EventType (bookEvents ! 0) = ''price_change'')
      | Inl err \<Rightarrow> False)"

definition single_book_shape :: "json option \<Rightarrow> bool" where
  "single_book_shape data =
     (case Unmarshal decode_BookEvent data of
        Inr singleBook \<Rightarrow> be_EventType singleBook \<noteq> []
      | Inl err \<Rightarrow> False)"


text \<open>
  Inputs for the examples: an environment whose clock reads a fixed instant and whose
  \<^verbatim>\<open>time.Parse\<close> accepts no text (the examples carry numeric timestamps or none),
  and some payloads of the feed.
\<close>

definition example_env :: env where
  "example_env = \<lparr>time_Parse = (\<lambda>layout v. None), Now = 1700000000000000000\<rparr>"



definition number_price_message :: json where
  "number_price_message =
     JObject [(''type'', JString ''last_trade_price''),
              (''asset_id'', JString ''1234567890''),
              (''price'', JNumber ''0.5'')]"

definition subscribed_message :: json where
  "subscribed_message = JObject [(''type'', JString ''subscribed'')]"





section \<open>Burst tracker: the loop and the stored order\<close>

lemma validIdx_loop_takeWhile:
  "validIdx_loop ts c i v =
     (if i < length ts then i + length (takeWhile (\<lambda>t. \<not> After t c) (drop i ts)) else v)"
proof (induction ts c i v rule: validIdx_loop.induct)
  case (1 ts c i v)
  show ?case
  proof (cases "i < length ts")
    case False
    then show ?thesis by (simp add: validIdx_loop.simps)
  next
    case True
    then have d: "drop i ts = ts ! i # drop (Suc i) ts"
      by (simp add: Cons_nth_drop_Suc)
    show ?thesis
    proof (cases "After (ts ! i) c")
      case True
      with \<open>i < length ts\<close> d show ?thesis
        by (subst validIdx_loop.simps) simp
    next
      case False
      note IH = "1.IH"[OF \<open>i < length ts\<close> refl False]
      show ?thesis
      proof (cases "Suc i < length ts")
        case True
        with \<open>i < length ts\<close> False d IH show ?thesis
          by (subst validIdx_loop.simps) simp
      next
        case F2: False
        with \<open>i < length ts\<close> have e: "length ts = Suc i" by simp
        have "validIdx_loop ts c (Suc i) (Suc i) = Suc i"
          by (subst validIdx_loop.simps) (simp add: e)
        with \<open>i < length ts\<close> False d e show ?thesis
          by (subst validIdx_loop.simps) simp
      qed
    qed
  qed
qed

lemma Record_dropWhile:
  "Record b a now =
     (let ts = dropWhile (\<lambda>t. \<not> After t (now - window b))
                 (case trades b a of None \<Rightarrow> [] | Some ts \<Rightarrow> ts) @ [now]
      in (int (length ts), b\<lparr>trades := (trades b)(a \<mapsto> ts)\<rparr>))"
  by (simp add: Record_def Let_def validIdx_loop_takeWhile dropWhile_eq_drop)

lemma sorted_dropWhile_filter:
  "sorted ts \<Longrightarrow> dropWhile (\<lambda>t. \<not> After t c) ts = filter (\<lambda>t. After t c) ts"
proof (induction ts)
  case Nil
  show ?case by simp
next
  case (Cons a ts)
  show ?case
  proof (cases "After a c")
    case False
    with Cons show ?thesis by simp
  next
    case True
    with Cons.prems have "\<forall>t\<in>set ts. After t c"
      by (auto simp: After_def)
    then have "filter (\<lambda>t. After t c) ts = ts"
      by (simp add: filter_id_conv)
    with True show ?thesis by simp
  qed
qed
lemma tracker_ordered_New: "tracker_ordered (NewBurstTracker w) clock"
  by (simp add: tracker_ordered_def NewBurstTracker_def)

lemma tracker_ordered_mono:
  "tracker_ordered b clock \<Longrightarrow> clock \<le> clock' \<Longrightarrow> tracker_ordered b clock'"
  by (fastforce simp: tracker_ordered_def)

lemma sorted_dropWhile: "sorted ts \<Longrightarrow> sorted (dropWhile P ts)"
  by (induction ts) auto

lemma tracker_ordered_Record:
  assumes "tracker_ordered b clock" and "clock \<le> now"
  shows "tracker_ordered (snd (Record b a now)) now"
proof -
  let ?old = "case trades b a of None \<Rightarrow> [] | Some ts \<Rightarrow> ts"
  let ?kept = "dropWhile (\<lambda>t. \<not> After t (now - window b)) ?old"
  from assms(1) have "tracker_ordered b now"
    using assms(2) by (rule tracker_ordered_mono)
  then have old: "sorted ?old" "\<forall>t\<in>set ?old. t \<le> now"
    by (cases "trades b a"; simp add: tracker_ordered_def)+
  then have "sorted ?kept" "\<forall>t\<in>set ?kept. t \<le> now"
    by (auto simp: sorted_dropWhile dest: set_dropWhileD)
  then have new: "sorted (?kept @ [now])" "\<forall>t\<in>set (?kept @ [now]). t \<le> now"
    by (auto simp: sorted_append)
  from assms have "tracker_ordered b now"
    by (rule tracker_ordered_mono)
  with new show ?thesis
    by (auto simp: Record_dropWhile Let_def tracker_ordered_def)
qed

lemma tracker_ordered_Cleanup:
  "tracker_ordered b clock \<Longrightarrow> tracker_ordered (Cleanup b now) clock"
  by (auto simp: tracker_ordered_def Cleanup_def Let_def split: option.splits if_splits)

lemma tracker_ordered_step:
  "tracker_ordered b clock \<Longrightarrow> clock \<le> fst c \<Longrightarrow> tracker_ordered (tracker_step b c) (fst c)"
  by (cases c; cases "snd c")
     (auto intro: tracker_ordered_Record tracker_ordered_Cleanup tracker_ordered_mono)

lemma tracker_ordered_foldl:
  "tracker_ordered b clock \<Longrightarrow> sorted (clock # map fst calls @ [now]) \<Longrightarrow>
   tracker_ordered (foldl tracker_step b calls) now"
proof (induction calls arbitrary: b clock)
  case Nil
  then show ?case by (auto intro: tracker_ordered_mono)
next
  case (Cons c calls)
  from Cons.prems have "tracker_ordered (tracker_step b c) (fst c)"
    by (auto intro: tracker_ordered_step)
  moreover from Cons.prems have "sorted (fst c # map fst calls @ [now])"
    by simp
  ultimately show ?case
    using Cons.IH by simp
qed

lemma tracker_ordered_after:
  assumes "sorted (map fst calls @ [now])"
  shows "tracker_ordered (tracker_after w calls) now"
proof (cases calls)
  case Nil
  then show ?thesis by (simp add: tracker_after_def tracker_ordered_New)
next
  case (Cons c cs)
  have "tracker_ordered (NewBurstTracker w) (fst c)"
    by (rule tracker_ordered_New)
  moreover from assms Cons have "sorted (fst c # map fst calls @ [now])"
    by simp
  ultimately show ?thesis
    unfolding tracker_after_def by (rule tracker_ordered_foldl)
qed

section \<open>Claims about the burst tracker\<close>

text \<open>
  Claim C3. In every state that the tracker reaches from \<^verbatim>\<open>NewBurstTracker\<close> by calls
  of \<^verbatim>\<open>Record\<close> and \<^verbatim>\<open>Cleanup\<close> on a clock that does not go back, \<open>Record b key now\<close>
  keeps of the key's stored sequence exactly the entries later than \<open>now - window\<close>
  (it discards those at or before it), appends \<open>now\<close>, stores the result and returns
  its length, the new entry included. In particular, when every stored timestamp of
  the key is at or before \<open>now - window\<close>, it returns 1.
\<close>

theorem Record_discards_then_appends:
  assumes "sorted (map fst calls @ [now])"
    and "b = tracker_after w calls"
    and "stored = (case trades b key of None \<Rightarrow> [] | Some ts \<Rightarrow> ts)"
    and "kept = filter (\<lambda>t. \<not> t \<le> now - window b) stored"
  shows "Record b key now =
           (int (length (kept @ [now])), b\<lparr>trades := (trades b)(key \<mapsto> kept @ [now])\<rparr>)
         \<and> ((\<forall>t\<in>set stored. t \<le> now - window b) \<longrightarrow> fst (Record b key now) = 1)"
proof -
  from assms(1,2) have "tracker_ordered b now"
    by (simp add: tracker_ordered_after)
  with assms(3) have "sorted stored"
    by (auto simp: tracker_ordered_def split: option.splits)
  then have "dropWhile (\<lambda>t. \<not> After t (now - window b)) stored =
             filter (\<lambda>t. After t (now - window b)) stored"
    by (rule sorted_dropWhile_filter)
  also have "\<dots> = kept"
    using assms(4) by (simp add: After_def not_le)
  finally have "dropWhile (\<lambda>t. \<not> After t (now - window b)) stored = kept" .
  with assms(3) have eq: "Record b key now =
      (int (length (kept @ [now])), b\<lparr>trades := (trades b)(key \<mapsto> kept @ [now])\<rparr>)"
    by (simp add: Record_dropWhile Let_def)
  have "(\<forall>t\<in>set stored. t \<le> now - window b) \<longrightarrow> kept = []"
    using assms(4) by (auto simp: filter_empty_conv)
  with eq show ?thesis by auto
qed

lemma tracker_after_example:
  "tracker_after 60 [(1, CallRecord ''a''), (50, CallRecord ''a'')] =
     \<lparr>trades = [''a'' \<mapsto> [1, 50]], window = 60\<rparr>"
  by (simp add: tracker_after_def NewBurstTracker_def Record_dropWhile Let_def After_def)

theorem Record_discards_then_appends_witness:
  "sorted (map fst [(1, CallRecord ''a''), (50, CallRecord ''a'')] @ [100 :: time])
   \<and> Record (tracker_after 60 [(1, CallRecord ''a''), (50, CallRecord ''a'')]) ''a'' 100 =
       (2, \<lparr>trades = [''a'' \<mapsto> [50, 100]], window = 60\<rparr>)
   \<and> (1 :: time) \<le> 200 - 60 \<and> (50 :: time) \<le> 200 - 60
   \<and> fst (Record (tracker_after 60 [(1, CallRecord ''a''), (50, CallRecord ''a'')]) ''a'' 200) = 1"
proof -
  let ?calls = "[(1 :: time, CallRecord ''a''), (50, CallRecord ''a'')]"
  have s1: "sorted (map fst ?calls @ [100])" and s2: "sorted (map fst ?calls @ [200])"
    by simp_all
  show ?thesis
    using Record_discards_then_appends [OF s1 refl refl refl, of 60 "''a''"]
      Record_discards_then_appends [OF s2 refl refl refl, of 60 "''a''"]
    by (simp add: tracker_after_example)
qed

text \<open>
  Claim C9, as stated, with "strictly before \<open>now - window\<close>": the key \<open>a\<close> recorded at
  time 5 with window 10 has a last timestamp that is not strictly before \<open>15 - 10\<close>,
  and \<^verbatim>\<open>Cleanup\<close> at time 15 deletes it.
\<close>

theorem Cleanup_strict_counterexample:
  "trades (tracker_after 10 [(5, CallRecord ''a'')]) ''a'' = Some [5]
   \<and> \<not> last [5 :: time] < 15 - window (tracker_after 10 [(5, CallRecord ''a'')])
   \<and> trades (Cleanup (tracker_after 10 [(5, CallRecord ''a'')]) 15) ''a'' = None"
  by (simp add: tracker_after_def NewBurstTracker_def Record_dropWhile Cleanup_def Let_def
      After_def)

text \<open>
  Claim C9, amended. \<open>Cleanup b now\<close> deletes exactly the keys whose most recent stored
  timestamp is at or before \<open>now - window\<close> (the test of \<^verbatim>\<open>Record\<close>), or whose
  sequence is empty, and leaves the sequence of every other key, and the window, as
  they were.
\<close>

theorem Cleanup_deletes_expired:
  "trades (Cleanup b now) key =
     (case trades b key of
        None \<Rightarrow> None
      | Some ts \<Rightarrow> if ts = [] \<or> last ts \<le> now - window b then None else Some ts)
   \<and> window (Cleanup b now) = window b"
  by (auto simp: Cleanup_def Let_def After_def last_conv_nth split: option.splits)

theorem Cleanup_deletes_expired_witness:
  "trades (Cleanup \<lparr>trades = [''a'' \<mapsto> [1, 50], ''b'' \<mapsto> [70, 80]], window = 60\<rparr> 120) ''a'' = None
   \<and> trades (Cleanup \<lparr>trades = [''a'' \<mapsto> [1, 50], ''b'' \<mapsto> [70, 80]], window = 60\<rparr> 120) ''b''
       = Some [70, 80]"
  using Cleanup_deletes_expired
    [of "\<lparr>trades = [''a'' \<mapsto> [1, 50], ''b'' \<mapsto> [70, 80]], window = 60\<rparr>" 120 "''a''"]
    Cleanup_deletes_expired
    [of "\<lparr>trades = [''a'' \<mapsto> [1, 50], ''b'' \<mapsto> [70, 80]], window = 60\<rparr>" 120 "''b''"]
  by simp

section \<open>Detector: the suspects of one call\<close>

lemma Detect_suspects:
  "fst (Detect d trade nonce now) =
     shock_part d trade nonce @ whale_part d trade nonce @ fresh_part d trade nonce
       @ burst_part d trade nonce now"
proof -
  obtain count b where R: "Record (burstTracker d) (MakerAddress trade) now = (count, b)"
    by (cases "Record (burstTracker d) (MakerAddress trade) now")
  show ?thesis
  proof (cases "lastPrices d (AssetID trade)")
    case None
    then show ?thesis
      by (simp add: Detect_def Let_def shock_part_def whale_part_def fresh_part_def
          burst_part_def R)
  next
    case (Some lastPrice)
    then show ?thesis
      by (simp add: Detect_def Let_def shock_part_def whale_part_def fresh_part_def
          burst_part_def R)
  qed
qed


lemmas signal_defs = SignalPriceShock_def SignalWhale_def SignalFreshInsider_def SignalPanicBurst_def

lemma shock_part_elem:
  "s \<in> set (shock_part d trade nonce) \<Longrightarrow>
   SignalType s = SignalPriceShock \<and> sTrade s = trade \<and> Nonce s = nonce"
  by (cases "lastPrices d (AssetID trade)") (auto simp: shock_part_def split: if_splits)

lemma whale_part_elem:
  "s \<in> set (whale_part d trade nonce) \<Longrightarrow>
   SignalType s = SignalWhale \<and> sTrade s = trade \<and> Nonce s = nonce"
  by (auto simp: whale_part_def split: if_splits)

lemma fresh_part_elem:
  "s \<in> set (fresh_part d trade nonce) \<Longrightarrow>
   SignalType s = SignalFreshInsider \<and> sTrade s = trade \<and> Nonce s = nonce"
  by (auto simp: fresh_part_def split: if_splits)

lemma burst_part_elem:
  "s \<in> set (burst_part d trade nonce now) \<Longrightarrow>
   SignalType s = SignalPanicBurst \<and> sTrade s = trade \<and> Nonce s = nonce"
  by (auto simp: burst_part_def split: if_splits)

lemma shock_part_types:
  "map SignalType (shock_part d trade nonce) = []
   \<or> map SignalType (shock_part d trade nonce) = [SignalPriceShock]"
  by (cases "lastPrices d (AssetID trade)") (simp_all add: shock_part_def)

lemma whale_part_types:
  "map SignalType (whale_part d trade nonce) =
     (if f_ge (ValueUSD trade) (WhaleValueUSD (cfg d)) then [SignalWhale] else [])"
  by (simp add: whale_part_def)

lemma fresh_part_types:
  "map SignalType (fresh_part d trade nonce) =
     (if nonce \<ge> 0 \<and> f_ge (ValueUSD trade) (MinValueUSD (cfg d))
         \<and> nonce \<le> FreshWalletNonce (cfg d)
      then [SignalFreshInsider] else [])"
  by (simp add: fresh_part_def)

lemma burst_part_types:
  "map SignalType (burst_part d trade nonce now) = []
   \<or> map SignalType (burst_part d trade nonce now) = [SignalPanicBurst]"
  by (simp add: burst_part_def)

lemma Detect_types:
  "map SignalType (fst (Detect d trade nonce now)) =
     map SignalType (shock_part d trade nonce) @ map SignalType (whale_part d trade nonce)
       @ map SignalType (fresh_part d trade nonce) @ map SignalType (burst_part d trade nonce now)"
  by (simp add: Detect_suspects)

lemma signal_types_distinct:
  "distinct [SignalPriceShock, SignalWhale, SignalFreshInsider, SignalPanicBurst]"
  by (simp add: signal_defs)

lemma Detect_elem:
  "s \<in> set (fst (Detect d trade nonce now)) \<Longrightarrow> sTrade s = trade \<and> Nonce s = nonce"
  by (auto simp: Detect_suspects dest: shock_part_elem whale_part_elem fresh_part_elem
      burst_part_elem)



lemmas test_defs = zeroTrade_def test_cfg_def whaleTrade_def freshTrade_def NewDetector_def
  NewBurstTracker_def


section \<open>Claims about the detector\<close>


text \<open>
  Claim C4. For every trade whose \<open>ValueUSD\<close> is at least the whale threshold, every
  nonce and every state, the suspects returned by \<^verbatim>\<open>Detect\<close> hold exactly one suspect
  of type WHALE.
\<close>

theorem Detect_whale_exactly_one:
  "f_ge (ValueUSD trade) (WhaleValueUSD (cfg d)) \<Longrightarrow>
   length (filter (\<lambda>s. SignalType s = SignalWhale) (fst (Detect d trade nonce now))) = 1"
proof -
  assume w: "f_ge (ValueUSD trade) (WhaleValueUSD (cfg d))"
  have "length (filter (\<lambda>s. SignalType s = SignalWhale) (fst (Detect d trade nonce now))) =
        length (filter (\<lambda>ty. ty = SignalWhale) (map SignalType (fst (Detect d trade nonce now))))"
    by (simp add: filter_map comp_def)
  also have "\<dots> = 1"
    using shock_part_types [of d trade nonce] burst_part_types [of d trade nonce now] w
    by (auto simp: Detect_types whale_part_types fresh_part_types signal_defs)
  finally show ?thesis .
qed
theorem Detect_whale_exactly_one_witness:
  "f_ge (ValueUSD whaleTrade) (WhaleValueUSD (cfg (NewDetector test_cfg)))
   \<and> length (filter (\<lambda>s. SignalType s = SignalWhale)
        (fst (Detect (NewDetector test_cfg) whaleTrade (- 1) 0))) = 1"
  using Detect_whale_exactly_one [of whaleTrade "NewDetector test_cfg" "- 1" 0]
  by (simp add: test_defs f_ge_def)

text \<open>
  Claim C5. \<^verbatim>\<open>Detect\<close> emits a FRESH\_INSIDER suspect if and only if the nonce is at
  least 0, the trade's \<open>ValueUSD\<close> is at least \<open>MinValueUSD\<close> and the nonce is at most
  \<open>FreshWalletNonce\<close>; the suspect carries the nonce; with nonce \<open>-1\<close> there is none.
\<close>

theorem Detect_fresh_insider_iff:
  "((\<exists>s\<in>set (fst (Detect d trade nonce now)). SignalType s = SignalFreshInsider) \<longleftrightarrow>
      nonce \<ge> 0 \<and> f_ge (ValueUSD trade) (MinValueUSD (cfg d)) \<and> nonce \<le> FreshWalletNonce (cfg d))
   \<and> (\<forall>s\<in>set (fst (Detect d trade nonce now)). SignalType s = SignalFreshInsider \<longrightarrow> Nonce s = nonce)
   \<and> (nonce = - 1 \<longrightarrow>
        (\<forall>s\<in>set (fst (Detect d trade nonce now)). SignalType s \<noteq> SignalFreshInsider))"
proof -
  have "(\<exists>s\<in>set (fst (Detect d trade nonce now)). SignalType s = SignalFreshInsider) \<longleftrightarrow>
        SignalFreshInsider \<in> set (map SignalType (fst (Detect d trade nonce now)))"
    by force
  also have "\<dots> \<longleftrightarrow>
      nonce \<ge> 0 \<and> f_ge (ValueUSD trade) (MinValueUSD (cfg d)) \<and> nonce \<le> FreshWalletNonce (cfg d)"
    using shock_part_types [of d trade nonce] burst_part_types [of d trade nonce now]
    unfolding Detect_types whale_part_types fresh_part_types
    by (auto simp: signal_defs)
  finally have iff: "(\<exists>s\<in>set (fst (Detect d trade nonce now)). SignalType s = SignalFreshInsider) \<longleftrightarrow>
      nonce \<ge> 0 \<and> f_ge (ValueUSD trade) (MinValueUSD (cfg d)) \<and> nonce \<le> FreshWalletNonce (cfg d)" .
  have carried: "\<forall>s\<in>set (fst (Detect d trade nonce now)). Nonce s = nonce"
    by (simp add: Detect_elem)
  from iff have "nonce = - 1 \<longrightarrow>
      (\<forall>s\<in>set (fst (Detect d trade nonce now)). SignalType s \<noteq> SignalFreshInsider)"
    by auto
  with iff carried show ?thesis by blast
qed
theorem Detect_fresh_insider_iff_witness:
  "(\<exists>s\<in>set (fst (Detect (NewDetector test_cfg) freshTrade 2 0)).
      SignalType s = SignalFreshInsider \<and> Nonce s = 2)
   \<and> \<not> (\<exists>s\<in>set (fst (Detect (NewDetector test_cfg) freshTrade (- 1) 0)).
      SignalType s = SignalFreshInsider)"
proof -
  have "(0::int) \<le> 2 \<and> f_ge (ValueUSD freshTrade) (MinValueUSD (cfg (NewDetector test_cfg)))
        \<and> 2 \<le> FreshWalletNonce (cfg (NewDetector test_cfg))"
    by (simp add: test_defs f_ge_def)
  with Detect_fresh_insider_iff [of "NewDetector test_cfg" freshTrade 2 0]
    Detect_fresh_insider_iff [of "NewDetector test_cfg" freshTrade "- 1" 0]
  show ?thesis by fast
qed

text \<open>
  Claim C10. The signal types of the suspects returned by \<^verbatim>\<open>Detect\<close> form a
  subsequence of PRICE\_SHOCK, WHALE, FRESH\_INSIDER, PANIC\_BURST: they come in that
  order, no type twice, at most four suspects; and every suspect holds the input trade
  and the given nonce.
\<close>

theorem Detect_suspects_shape:
  "subseq (map SignalType (fst (Detect d trade nonce now)))
     [SignalPriceShock, SignalWhale, SignalFreshInsider, SignalPanicBurst]
   \<and> distinct (map SignalType (fst (Detect d trade nonce now)))
   \<and> length (fst (Detect d trade nonce now)) \<le> 4
   \<and> (\<forall>s\<in>set (fst (Detect d trade nonce now)). sTrade s = trade \<and> Nonce s = nonce)"
proof -
  let ?tys = "map SignalType (fst (Detect d trade nonce now))"
  let ?all = "[SignalPriceShock, SignalWhale, SignalFreshInsider, SignalPanicBurst]"
  have sub: "subseq ?tys ?all"
    using shock_part_types [of d trade nonce] burst_part_types [of d trade nonce now]
    unfolding Detect_types whale_part_types fresh_part_types
    by (auto simp: signal_defs)
  then have "?tys \<in> set (subseqs ?all)"
    by (simp only: in_set_subseqs)
  then have dist: "distinct ?tys"
    using signal_types_distinct by (rule subseqs_distinctD)
  from sub have "length ?tys \<le> length ?all"
    by (rule list_emb_length)
  then have len: "length (fst (Detect d trade nonce now)) \<le> 4"
    by simp
  from sub dist len show ?thesis
    by (simp add: Detect_elem)
qed
theorem Detect_suspects_shape_witness:
  "map SignalType (fst (Detect (NewDetector test_cfg) whaleTrade (- 1) 0)) = [SignalWhale]
   \<and> subseq [SignalWhale] [SignalPriceShock, SignalWhale, SignalFreshInsider, SignalPanicBurst]
   \<and> list_all (\<lambda>s. sTrade s = whaleTrade \<and> Nonce s = - 1)
         (fst (Detect (NewDetector test_cfg) whaleTrade (- 1) 0))"
proof -
  have "map SignalType (fst (Detect (NewDetector test_cfg) whaleTrade (- 1) 0)) = [SignalWhale]"
    by (simp add: Detect_suspects shock_part_def whale_part_def fresh_part_def burst_part_def
        Record_dropWhile Let_def test_defs f_ge_def)
  with Detect_suspects_shape [of "NewDetector test_cfg" whaleTrade "- 1" 0]
  show ?thesis by (simp add: list_all_iff)
qed

section \<open>Parser: numbers and the value heuristic\<close>


lemmas json_eval = Unmarshal_def decode_WSMessage_def decode_BookEvent_def decode_level_def
  decode_TradeData_def TradeData_of_entries_def decode_TradeEvent_def
  decode_LastTradePriceEvent_def string_field_def slice_field_def raw_field_def
  field_values_def key_matches_def

lemma fold_key_names:
  "fold_key ''type'' = ''type''"
  "fold_key ''channel'' = ''channel''"
  "fold_key ''data'' = ''data''"
  "fold_key ''price'' = ''price''"
  "fold_key ''size'' = ''size''"
  "fold_key ''market'' = ''market''"
  "fold_key ''asset_id'' = ''asset_id''"
  "fold_key ''timestamp'' = ''timestamp''"
  "fold_key ''hash'' = ''hash''"
  "fold_key ''event_type'' = ''event_type''"
  "fold_key ''last_trade_price'' = ''last_trade_price''"
  "fold_key ''bids'' = ''bids''"
  "fold_key ''asks'' = ''asks''"
  "fold_key ''id'' = ''id''"
  "fold_key ''trade_id'' = ''trade_id''"
  "fold_key ''maker'' = ''maker''"
  "fold_key ''taker'' = ''taker''"
  "fold_key ''maker_address'' = ''maker_address''"
  "fold_key ''taker_address'' = ''taker_address''"
  "fold_key ''side'' = ''side''"
  "fold_key ''outcome'' = ''outcome''"
  "fold_key ''transaction_hash'' = ''transaction_hash''"
  "fold_key ''match_time'' = ''match_time''"
  "fold_key ''status'' = ''status''"
  "fold_key ''trades'' = ''trades''"
  by (simp_all add: fold_key_def to_lower_def)









lemma rnd_zero: "rnd 0 = Fin 0"
  by (simp add: rnd_def f64_overflow_def f64_underflow_def)


lemma f_mul_zero: "f_mul (Fin 0) (Fin x) = Fin 0" "f_mul (Fin x) (Fin 0) = Fin 0"
  by (simp_all add: rnd_zero)


section \<open>Parser: the shapes of a message\<close>

lemma parseTrades_single_no_error: "snd (parseTrades_single e data) = None"
  by (simp add: parseTrades_single_def split: sum.split)

lemma parseTrades_event_no_error: "snd (parseTrades_event e data) = None"
  by (simp add: parseTrades_event_def parseTrades_single_no_error split: sum.split)

lemma parseTrades_no_error: "snd (parseTrades e data) = None"
  by (simp add: parseTrades_def parseTrades_event_no_error split: sum.split)

lemma Unmarshal_type_error:
  "Unmarshal decode (Some v) = Inl err \<Longrightarrow> err = UnmarshalTypeError"
  by (auto simp: Unmarshal_def split: option.splits)

lemma ParseMessage_envelope_error:
  assumes "snd (snd (ParseMessage_envelope e data)) = Some err"
  shows "(\<exists>de. Unmarshal decode_WSMessage data = Inl de
            \<and> ParseMessage_envelope e data = ([], [], Some (UnmarshalMessageFailed de)))
         \<or> (\<exists>msg de. Unmarshal decode_WSMessage data = Inr msg
            \<and> ws_Type msg = ''last_trade_price''
            \<and> Unmarshal decode_LastTradePriceEvent data = Inl de
            \<and> ParseMessage_envelope e data =
                 ([], ''last_trade_price'', Some (ParseLastTradePriceFailed de)))"
proof (cases "Unmarshal decode_WSMessage data")
  case (Inl de)
  then show ?thesis by (simp add: ParseMessage_envelope_def)
next
  case (Inr msg)
  show ?thesis
  proof (cases "ws_Type msg = ''last_trade_price''")
    case True
    show ?thesis
    proof (cases "Unmarshal decode_LastTradePriceEvent data")
      case (Inl de)
      with Inr True show ?thesis
        by (simp add: ParseMessage_envelope_def parseLastTradePrice_def)
    next
      case (Inr event)
      with \<open>Unmarshal decode_WSMessage data = Inr msg\<close> True assms show ?thesis
        by (simp add: ParseMessage_envelope_def parseLastTradePrice_def Let_def
            split: if_splits)
    qed
  next
    case False
    obtain ts where "parseTrades e (ws_Data msg) = (ts, None)"
      using parseTrades_no_error [of e "ws_Data msg"]
      by (cases "parseTrades e (ws_Data msg)") simp
    with Inr False assms show ?thesis
      by (simp add: ParseMessage_envelope_def split: if_splits)
  qed
qed

lemma ParseMessage_cases:
  "ParseMessage e data =
     (if book_array_shape data
      then (parseBookEvents e (projr (Unmarshal (decode_slice decode_BookEvent) data)),
            ''book_array'', None)
      else if single_book_shape data
      then (parseBookEvents e [projr (Unmarshal decode_BookEvent data)],
            be_EventType (projr (Unmarshal decode_BookEvent data)), None)
      else ParseMessage_envelope e data)"
proof -
  have single: "ParseMessage_single e data =
     (if single_book_shape data
      then (parseBookEvents e [projr (Unmarshal decode_BookEvent data)],
            be_EventType (projr (Unmarshal decode_BookEvent data)), None)
      else ParseMessage_envelope e data)"
    by (cases "Unmarshal decode_BookEvent data")
       (simp_all add: ParseMessage_single_def single_book_shape_def
          del: parseBookEvents.simps)
  show ?thesis
    by (cases "Unmarshal (decode_slice decode_BookEvent) data")
       (simp_all add: ParseMessage_def book_array_shape_def single
          del: parseBookEvents.simps)
qed













lemmas parser_eval = ParseMessage_def ParseMessage_single_def ParseMessage_envelope_def
  parseTrades_def parseTrades_event_def parseTrades_single_def parseLastTradePrice_def
  convertTrades_def generateID_def parseFloat_def calculateValueUSD_def
  f_eq_def f_gt_def f_ge_def Let_def



section \<open>Claims about the parser\<close>






text \<open>
  Claim C7, as stated, with "an error only when the payload is not valid as a generic
  envelope": the payload \<open>{"type": "last_trade_price", "asset_id": "1234567890",
  "price": 0.5}\<close> decodes as an envelope, and \<^verbatim>\<open>ParseMessage\<close> returns the error of
  \<^verbatim>\<open>parseLastTradePrice\<close>, whose \<open>price\<close> field is a string.
\<close>

theorem ParseMessage_error_counterexample:
  "Unmarshal decode_WSMessage (Some number_price_message) =
     Inr \<lparr>ws_Type = ''last_trade_price'', ws_Channel = [], ws_Data = None\<rparr>
   \<and> ParseMessage example_env (Some number_price_message) =
       ([], ''last_trade_price'', Some (ParseLastTradePriceFailed UnmarshalTypeError))"
  by (simp add: number_price_message_def parser_eval json_eval fold_key_names)

text \<open>
  Claim C7, amended. \<^verbatim>\<open>ParseMessage\<close> returns an error only when the payload does
  not decode as an envelope, or when it decodes as an envelope of type
  \<open>last_trade_price\<close> and does not decode as a last-trade-price event; in both cases
  the trades are empty. A payload that decodes as an envelope, is neither an array of
  book events nor a single book event, and whose type is neither \<open>last_trade_price\<close>
  nor \<open>trade\<close>, gives no trades, the type of the envelope and no error.
\<close>

theorem ParseMessage_error_cases:
  "(\<forall>err. snd (snd (ParseMessage e data)) = Some err \<longrightarrow>
      (\<exists>de. Unmarshal decode_WSMessage data = Inl de
          \<and> ParseMessage e data = ([], [], Some (UnmarshalMessageFailed de)))
      \<or> (\<exists>msg de. Unmarshal decode_WSMessage data = Inr msg
          \<and> ws_Type msg = ''last_trade_price''
          \<and> Unmarshal decode_LastTradePriceEvent data = Inl de
          \<and> ParseMessage e data =
               ([], ''last_trade_price'', Some (ParseLastTradePriceFailed de))))
   \<and> (\<forall>msg. Unmarshal decode_WSMessage data = Inr msg
          \<and> \<not> book_array_shape data \<and> \<not> single_book_shape data
          \<and> ws_Type msg \<noteq> ''last_trade_price'' \<and> ws_Type msg \<noteq> ''trade'' \<longrightarrow>
          ParseMessage e data = ([], ws_Type msg, None))"
proof -
  have errors: "(\<exists>de. Unmarshal decode_WSMessage data = Inl de
          \<and> ParseMessage e data = ([], [], Some (UnmarshalMessageFailed de)))
      \<or> (\<exists>msg de. Unmarshal decode_WSMessage data = Inr msg
          \<and> ws_Type msg = ''last_trade_price''
          \<and> Unmarshal decode_LastTradePriceEvent data = Inl de
          \<and> ParseMessage e data =
               ([], ''last_trade_price'', Some (ParseLastTradePriceFailed de)))"
    if "snd (snd (ParseMessage e data)) = Some err" for err
  proof -
    from that have env: "ParseMessage e data = ParseMessage_envelope e data"
      by (simp add: ParseMessage_cases split: if_splits)
    with that have "snd (snd (ParseMessage_envelope e data)) = Some err"
      by simp
    from ParseMessage_envelope_error [OF this] show ?thesis
      unfolding env .
  qed
  have other: "ParseMessage e data = ([], ws_Type msg, None)"
    if "Unmarshal decode_WSMessage data = Inr msg" and "\<not> book_array_shape data"
      and "\<not> single_book_shape data" and "ws_Type msg \<noteq> ''last_trade_price''"
      and "ws_Type msg \<noteq> ''trade''" for msg
    using that by (simp add: ParseMessage_cases ParseMessage_envelope_def)
  from errors other show ?thesis by blast
qed

theorem ParseMessage_error_cases_witness:
  "Unmarshal decode_WSMessage None = Inl SyntaxError
   \<and> ParseMessage example_env None = ([], [], Some (UnmarshalMessageFailed SyntaxError))
   \<and> Unmarshal decode_WSMessage (Some subscribed_message) =
       Inr \<lparr>ws_Type = ''subscribed'', ws_Channel = [], ws_Data = None\<rparr>
   \<and> \<not> book_array_shape (Some subscribed_message)
   \<and> \<not> single_book_shape (Some subscribed_message)
   \<and> ParseMessage example_env (Some subscribed_message) = ([], ''subscribed'', None)"
proof -
  have none: "snd (snd (ParseMessage example_env None)) = Some (UnmarshalMessageFailed SyntaxError)"
    by (simp add: parser_eval Unmarshal_def)
  have msg: "Unmarshal decode_WSMessage (Some subscribed_message) =
       Inr \<lparr>ws_Type = ''subscribed'', ws_Channel = [], ws_Data = None\<rparr>"
    by (simp add: subscribed_message_def json_eval fold_key_names)
  have shapes: "\<not> book_array_shape (Some subscribed_message)"
    "\<not> single_book_shape (Some subscribed_message)"
    by (simp_all add: subscribed_message_def book_array_shape_def single_book_shape_def
        json_eval fold_key_names)
  from ParseMessage_error_cases [of example_env None] none
  have 1: "Unmarshal decode_WSMessage None = Inl SyntaxError
       \<and> ParseMessage example_env None = ([], [], Some (UnmarshalMessageFailed SyntaxError))"
    by (auto simp: Unmarshal_def)
  from ParseMessage_error_cases [of example_env "Some subscribed_message"] msg shapes
  have 2: "ParseMessage example_env (Some subscribed_message) = ([], ''subscribed'', None)"
    by simp
  from 1 2 msg shapes show ?thesis by simp
qed




end
